theory Spec2Isabelle
  imports Complex_Main "HOL-Library.AList"
begin

section \<open>JavaScript values, exceptions and completions\<close>

text \<open>
  A content snapshot is the \<open>innerHTML\<close> string of a block. The stacks are JavaScript
  arrays, and \<open>pop\<close> on an empty array yields \<open>undefined\<close>, so the element type has
  that value as well.
\<close>

datatype jsval = Undefined | Str string

datatype js_error = TypeError | ReferenceError | SyntaxError

text \<open>A call either returns a value or throws; the state reached so far is kept in both cases.\<close>

datatype 'a completion = Normal 'a | Throw js_error

type_synonym block_id = string

section \<open>The undo/redo module (static/app/undo\_redo.js)\<close>

text \<open>
  \<open>undoStacks\<close> and \<open>redoStacks\<close> are objects from block id to an array of snapshots.
  They are kept as association lists in the enumeration order of \<open>for ... in\<close>: an
  assignment to an existing key keeps its place, a new key goes to the end. The top of a
  stack is the last element of its array. A lookup that finds no entry is the JavaScript
  \<open>undefined\<close> (falsy); an array, even an empty one, is truthy.
\<close>

type_synonym stacks = "(block_id \<times> jsval list) list"

record history =
  undoStacks :: stacks
  redoStacks :: stacks

definition MAX_HISTORY :: nat where
  "MAX_HISTORY = 5000"

definition initStack :: "block_id \<Rightarrow> history \<Rightarrow> history" where
  "initStack blockId h =
     (case map_of (undoStacks h) blockId of
        None \<Rightarrow> h\<lparr>undoStacks := AList.update blockId [] (undoStacks h),
                   redoStacks := AList.update blockId [] (redoStacks h)\<rparr>
      | Some _ \<Rightarrow> h)"

definition pushState :: "block_id \<Rightarrow> jsval \<Rightarrow> history \<Rightarrow> history" where
  "pushState blockId newState h0 =
     (let h = initStack blockId h0 in
      case map_of (undoStacks h) blockId of
        None \<Rightarrow> h \<comment> \<open>never taken: \<open>initStack\<close> has made the entry\<close>
      | Some currentStack \<Rightarrow>
          if length currentStack = 0 then
            h\<lparr>undoStacks := AList.update blockId (currentStack @ [newState]) (undoStacks h),
              redoStacks := AList.update blockId [] (redoStacks h)\<rparr>
          else if last currentStack \<noteq> newState then
            (let pushed = currentStack @ [newState];
                 kept = (if length pushed > MAX_HISTORY then tl pushed else pushed);
                 h1 = h\<lparr>undoStacks := AList.update blockId kept (undoStacks h)\<rparr>
             in case map_of (redoStacks h1) blockId of
                  None \<Rightarrow> h1
                | Some r \<Rightarrow>
                    if length r > 0
                    then h1\<lparr>redoStacks := AList.update blockId [] (redoStacks h1)\<rparr>
                    else h1)
          else h)"

text \<open>
  \<open>undo\<close> and \<open>redo\<close> return \<open>null\<close> (\<open>None\<close>) or the object
  \<open>{ blockId, content }\<close>. In \<open>undo\<close> the redo array is read before the undo array is
  popped, and pushed to afterwards: were it missing, the push would throw after the pop.
\<close>

type_synonym undo_result = "block_id \<times> jsval"

definition undo :: "block_id \<Rightarrow> history \<Rightarrow> undo_result option completion \<times> history" where
  "undo blockId h0 =
     (case map_of (undoStacks h0) blockId of
        None \<Rightarrow> (Normal None, h0)
      | Some s0 \<Rightarrow>
          if length s0 \<le> 1 then (Normal None, h0)
          else
            (let h = initStack blockId h0 in
             case map_of (undoStacks h) blockId of
               None \<Rightarrow> (Throw TypeError, h)
             | Some currentStack \<Rightarrow>
                 (let redoStack = map_of (redoStacks h) blockId;
                      currentState = (if currentStack = [] then Undefined else last currentStack);
                      popped = butlast currentStack;
                      h1 = h\<lparr>undoStacks := AList.update blockId popped (undoStacks h)\<rparr>
                  in case redoStack of
                       None \<Rightarrow> (Throw TypeError, h1)
                     | Some r \<Rightarrow>
                         (let h2 = h1\<lparr>redoStacks :=
                                        AList.update blockId (r @ [currentState]) (redoStacks h1)\<rparr>;
                              previousState = (if popped = [] then Undefined else last popped)
                          in (Normal (Some (blockId, previousState)), h2)))))"

definition redo :: "block_id \<Rightarrow> history \<Rightarrow> undo_result option completion \<times> history" where
  "redo blockId h0 =
     (case map_of (redoStacks h0) blockId of
        None \<Rightarrow> (Normal None, h0)
      | Some r0 \<Rightarrow>
          if length r0 = 0 then (Normal None, h0)
          else
            (let h = initStack blockId h0 in
             case (map_of (undoStacks h) blockId, map_of (redoStacks h) blockId) of
               (Some currentStack, Some redoStack) \<Rightarrow>
                 (let nextState = (if redoStack = [] then Undefined else last redoStack);
                      h1 = h\<lparr>redoStacks := AList.update blockId (butlast redoStack) (redoStacks h)\<rparr>;
                      h2 = h1\<lparr>undoStacks :=
                                 AList.update blockId (currentStack @ [nextState]) (undoStacks h1)\<rparr>
                  in (Normal (Some (blockId, nextState)), h2))
             | _ \<Rightarrow> (Throw TypeError, h)))"




definition clearBlockHistory :: "block_id \<Rightarrow> history \<Rightarrow> history" where
  "clearBlockHistory blockId h =
     (let h1 = (case map_of (undoStacks h) blockId of
                  None \<Rightarrow> h
                | Some _ \<Rightarrow> h\<lparr>undoStacks := AList.update blockId [] (undoStacks h)\<rparr>)
      in case map_of (redoStacks h1) blockId of
           None \<Rightarrow> h1
         | Some _ \<Rightarrow> h1\<lparr>redoStacks := AList.update blockId [] (redoStacks h1)\<rparr>)"

definition clearStacks :: history where
  "clearStacks = \<lparr>undoStacks = [], redoStacks = []\<rparr>"

text \<open>The number of entries of a block's stack; a block with no array has none.\<close>

definition stackLen :: "stacks \<Rightarrow> block_id \<Rightarrow> nat" where
  "stackLen st blockId = (case map_of st blockId of None \<Rightarrow> 0 | Some s \<Rightarrow> length s)"

definition pushAll :: "(block_id \<times> jsval) list \<Rightarrow> history \<Rightarrow> history" where
  "pushAll calls h = foldl (\<lambda>acc (blockId, s). pushState blockId s acc) h calls"

text \<open>
  Every exported function keeps the two objects on the same keys: \<open>initStack\<close> adds a
  key to both, \<open>clearStacks\<close> empties both, and nothing removes a key from one of them.
\<close>

definition keysAgree :: "history \<Rightarrow> bool" where
  "keysAgree h = (fst ` set (undoStacks h) = fst ` set (redoStacks h))"

section \<open>The client state\<close>

text \<open>
  The editor module (static/app/editor.js), the WebSocket module and the notification area
  share one page. The state of the client is the content of their module variables, the
  blocks of the editor container, the messages written to the socket, the timers that are
  pending and what the user has been shown.
\<close>

type_synonym metadata = string

text \<open>
  A block element of the editor container: its \<open>contentEditable\<close> property, its
  \<open>innerHTML\<close>, whether its class list has \<open>locked\<close>, its \<open>title\<close>, whether it is of a
  kind that is never editable (an \<open>HR\<close>, a \<open>table\<close> or a \<open>table-options\<close> block), and the
  metadata that \<open>getBlockMetadata\<close> reads from its data attributes.
\<close>

datatype editable = CE_true | CE_false | CE_inherit

record element =
  contentEditable :: editable
  innerHTML :: string
  lockedClass :: bool
  title :: string
  neverEditable :: bool
  dataMeta :: metadata

datatype message =
    set_username "string option"
  | heartbeat
  | lock_block "string option" block_id
  | unlock_block "string option" block_id
  | update_document "string option" block_id jsval "metadata option"

datatype socket = NoSocket | Connecting | Open

text \<open>A notification: the text and its type (\<open>info\<close>, \<open>success\<close>, \<open>warning\<close>, \<open>error\<close>).\<close>

type_synonym notice = "string \<times> string"

record client =
  currentDocId :: "string option"
  currentBlockId :: "block_id option"
  charCountSinceLastUpdate :: nat
  timerId :: "(block_id \<times> nat) option"
  blockMetadataCache :: "(block_id \<times> metadata) list"
  activeLocks :: "block_id list"
  blocks :: "(block_id \<times> element) list"
  hist :: history
  socket :: socket
  currentUsername :: "string option"
  heartbeatInterval :: bool
  reconnectAttempts :: nat
  reconnectTimers :: "nat list"
  sent :: "message list"
  closedBanner :: bool
  notifications :: "notice list"

text \<open>
  \<open>timerId\<close> is the idle timer that is pending, with the block it was set for and its
  delay in milliseconds; \<open>clearTimeout\<close> leaves none pending. \<open>reconnectTimers\<close> are the
  delays of the reconnections scheduled so far, in the order of scheduling. \<open>sent\<close> are
  the messages written to the socket, in order.
\<close>

definition truthy :: "string option \<Rightarrow> bool" where
  "truthy v = (case v of None \<Rightarrow> False | Some x \<Rightarrow> x \<noteq> [])"

definition showNotification :: "string \<Rightarrow> string \<Rightarrow> client \<Rightarrow> client" where
  "showNotification msg kind st = st\<lparr>notifications := notifications st @ [(msg, kind)]\<rparr>"

section \<open>Configuration (static/app/config.js)\<close>

definition CHAR_UPDATE_THRESHOLD :: nat where
  "CHAR_UPDATE_THRESHOLD = 20"

definition TIME_UPDATE_THRESHOLD_MS :: nat where
  "TIME_UPDATE_THRESHOLD_MS = 8000"

section \<open>The WebSocket module\<close>

definition MAX_RECONNECT_ATTEMPTS :: nat where
  "MAX_RECONNECT_ATTEMPTS = 5"

definition RECONNECT_DELAY :: nat where
  "RECONNECT_DELAY = 3000"

definition sendMessage :: "message \<Rightarrow> client \<Rightarrow> bool \<times> client" where
  "sendMessage m st =
     (if socket st \<noteq> Open
      then (False, showNotification ''Cannot send message: Connection not active.'' ''warning'' st)
      else (True, st\<lparr>sent := sent st @ [m]\<rparr>))"

text \<open>
  \<open>connectWebSocket\<close>: with a socket that is open or connecting only the user name is
  updated; otherwise a new socket is created, which is connecting until \<open>onopen\<close> or
  \<open>onclose\<close> is called.
\<close>

definition connectWebSocket :: "string option \<Rightarrow> client \<Rightarrow> client" where
  "connectWebSocket username st =
     (if socket st = Open \<or> socket st = Connecting then
        (if username \<noteq> currentUsername st
         then (snd (sendMessage (set_username username) st))\<lparr>currentUsername := username\<rparr>
         else st)
      else
        (showNotification ''Connecting...'' ''info'' (st\<lparr>currentUsername := username\<rparr>))
          \<lparr>socket := Connecting\<rparr>)"

definition onopen :: "client \<Rightarrow> client" where
  "onopen st0 =
     (let st = st0\<lparr>socket := Open, reconnectAttempts := 0\<rparr>;
          st1 = (showNotification ''Connected!'' ''success'' st)\<lparr>closedBanner := False\<rparr>;
          st2 = snd (sendMessage (set_username (currentUsername st1)) st1)
      in st2\<lparr>heartbeatInterval := True\<rparr>)"

text \<open>
  \<open>onclose\<close>: the heartbeat stops, the socket is dropped and the banner is shown; then a
  reconnection is scheduled after \<open>RECONNECT_DELAY * reconnectAttempts\<close> while the counter
  is below \<open>MAX_RECONNECT_ATTEMPTS\<close>, and an error is shown otherwise.
\<close>

fun decimal :: "nat \<Rightarrow> string" where
  "decimal n = (if n < 10 then [char_of (48 + n)]
                else decimal (n div 10) @ [char_of (48 + n mod 10)])"

declare decimal.simps [simp del]

definition attemptText :: "nat \<Rightarrow> string" where
  "attemptText n = ''Connection lost. Reconnecting... (Attempt '' @ decimal n @ '')''"

definition onclose :: "client \<Rightarrow> client" where
  "onclose st0 =
     (let st = st0\<lparr>heartbeatInterval := False, socket := NoSocket, closedBanner := True\<rparr> in
      if reconnectAttempts st < MAX_RECONNECT_ATTEMPTS then
        (let st1 = st\<lparr>reconnectAttempts := reconnectAttempts st + 1\<rparr>;
             delay = RECONNECT_DELAY * reconnectAttempts st1;
             st2 = showNotification (attemptText (reconnectAttempts st1)) ''warning'' st1
         in st2\<lparr>reconnectTimers := reconnectTimers st2 @ [delay]\<rparr>)
      else showNotification ''Connection lost. Could not reconnect.'' ''error'' st)"

text \<open>
  What happens to the connection: the socket closes (\<open>socket.onclose\<close>), a reconnection
  timer fires and \<open>connectWebSocket\<close> is called with the current user name, or the socket
  opens (\<open>socket.onopen\<close>, which sets the attempt counter back to 0).
\<close>

datatype ws_event = Close | ReconnectTimerFires | Opened

definition wsStep :: "client \<Rightarrow> ws_event \<Rightarrow> client" where
  "wsStep st ev = (case ev of Close \<Rightarrow> onclose st
                   | ReconnectTimerFires \<Rightarrow> connectWebSocket (currentUsername st) st
                   | Opened \<Rightarrow> onopen st)"

definition wsRun :: "ws_event list \<Rightarrow> client \<Rightarrow> client" where
  "wsRun evs st = foldl wsStep st evs"

definition closes :: "ws_event list \<Rightarrow> nat" where
  "closes evs = length (filter (\<lambda>e. e = Close) evs)"

text \<open>The client when the page has loaded: no document, no connection, nothing shown.\<close>

definition initialClient :: client where
  "initialClient =
     \<lparr>currentDocId = None, currentBlockId = None, charCountSinceLastUpdate = 0, timerId = None,
      blockMetadataCache = [], activeLocks = [], blocks = [], hist = clearStacks,
      socket = NoSocket, currentUsername = None, heartbeatInterval = False,
      reconnectAttempts = 0, reconnectTimers = [], sent = [], closedBanner = False,
      notifications = []\<rparr>"

section \<open>The editor module\<close>

definition getBlockElement :: "client \<Rightarrow> block_id \<Rightarrow> element option" where
  "getBlockElement st blockId = map_of (blocks st) blockId"

definition updateBlockMetadataCache :: "block_id \<Rightarrow> metadata \<Rightarrow> client \<Rightarrow> client" where
  "updateBlockMetadataCache blockId md st =
     (if blockId \<noteq> []
      then st\<lparr>blockMetadataCache := AList.update blockId md (blockMetadataCache st)\<rparr>
      else st)"

text \<open>
  \<open>getBlockMetadata\<close> of the element of a block: \<open>null\<close> without an element, the cached
  metadata if there is one, and otherwise the metadata read from the element, which is
  cached.
\<close>

definition getBlockMetadata :: "block_id \<Rightarrow> client \<Rightarrow> metadata option \<times> client" where
  "getBlockMetadata blockId st =
     (case getBlockElement st blockId of
        None \<Rightarrow> (None, st)
      | Some blockElement \<Rightarrow>
          (case map_of (blockMetadataCache st) blockId of
             Some md \<Rightarrow> (Some md, st)
           | None \<Rightarrow> (Some (dataMeta blockElement),
                      updateBlockMetadataCache blockId (dataMeta blockElement) st)))"

definition sendSpecificBlockUpdate ::
    "block_id \<Rightarrow> jsval \<Rightarrow> metadata option \<Rightarrow> client \<Rightarrow> bool \<times> client" where
  "sendSpecificBlockUpdate blockId content md st =
     (if \<not> truthy (currentDocId st) then (False, st)
      else sendMessage (update_document (currentDocId st) blockId content md) st)"

definition sendCurrentBlockUpdate :: "bool \<Rightarrow> client \<Rightarrow> client" where
  "sendCurrentBlockUpdate force st =
     (if \<not> truthy (currentBlockId st) then st
      else if \<not> force \<and> charCountSinceLastUpdate st = 0 then st
      else
        (case currentBlockId st of
           None \<Rightarrow> st
         | Some blockId \<Rightarrow>
             (case getBlockElement st blockId of
                None \<Rightarrow> st
              | Some block \<Rightarrow>
                  if contentEditable block \<noteq> CE_true then st
                  else
                    (let content = innerHTML block;
                         (md, st1) = getBlockMetadata blockId st
                     in case md of
                          None \<Rightarrow> st1
                        | Some m \<Rightarrow>
                            (let st2 = snd (sendSpecificBlockUpdate blockId (Str content) (Some m) st1)
                             in st2\<lparr>charCountSinceLastUpdate := 0, timerId := None\<rparr>)))))"

text \<open>
  An \<open>input\<close> event, given by the id of the block that the target lies in (\<open>None\<close> when it
  lies in none). The handler reads the content that the edit has already put in the block.
\<close>

definition handleBlockInput :: "block_id option \<Rightarrow> client \<Rightarrow> client" where
  "handleBlockInput target st =
     (case target of
        None \<Rightarrow> st
      | Some tid \<Rightarrow>
          (case getBlockElement st tid of
             None \<Rightarrow> st
           | Some block \<Rightarrow>
               if contentEditable block \<noteq> CE_true \<or> Some tid \<noteq> currentBlockId st then st
               else
                 (let blockId = tid;
                      st1 = st\<lparr>hist := pushState blockId (Str (innerHTML block)) (hist st)\<rparr>;
                      st2 = st1\<lparr>charCountSinceLastUpdate := charCountSinceLastUpdate st1 + 1\<rparr>;
                      st3 = st2\<lparr>timerId := None\<rparr>
                  in if charCountSinceLastUpdate st3 \<ge> CHAR_UPDATE_THRESHOLD
                     then sendCurrentBlockUpdate False st3
                     else st3\<lparr>timerId := Some (blockId, TIME_UPDATE_THRESHOLD_MS)\<rparr>)))"

text \<open>The idle timer set by \<open>handleBlockInput\<close> for \<open>blockId\<close> fires.\<close>

definition idleTimerFires :: "block_id \<Rightarrow> client \<Rightarrow> client" where
  "idleTimerFires blockId st =
     (let st1 = (if currentBlockId st = Some blockId then sendCurrentBlockUpdate False st else st)
      in st1\<lparr>timerId := None\<rparr>)"

definition removeLock :: "block_id \<Rightarrow> client \<Rightarrow> client" where
  "removeLock blockId st = st\<lparr>activeLocks := removeAll blockId (activeLocks st)\<rparr>"

definition resetTyping :: "client \<Rightarrow> client" where
  "resetTyping st = st\<lparr>currentBlockId := None, charCountSinceLastUpdate := 0, timerId := None\<rparr>"

text \<open>
  \<open>handleBlockBlur\<close> arms a timeout of 150 ms when the block that loses the focus is the
  tracked one. \<open>blurTimeout\<close> is that timeout: it is given the block that lost the focus
  and the block that holds the focus by then, if any.
\<close>

definition handleBlockBlur :: "block_id option \<Rightarrow> client \<Rightarrow> block_id option" where
  "handleBlockBlur target st =
     (case target of
        None \<Rightarrow> None
      | Some tid \<Rightarrow>
          (case getBlockElement st tid of
             None \<Rightarrow> None
           | Some _ \<Rightarrow> if Some tid \<noteq> currentBlockId st then None else Some tid))"

definition blurTimeout :: "block_id \<Rightarrow> block_id option \<Rightarrow> client \<Rightarrow> client" where
  "blurTimeout blockIdLosingFocus newlyFocusedBlockId st =
     (if newlyFocusedBlockId = Some blockIdLosingFocus then st
      else
        (let st1 = sendCurrentBlockUpdate True st;
             st2 = (if blockIdLosingFocus \<in> set (activeLocks st1)
                    then removeLock blockIdLosingFocus
                           (snd (sendMessage (unlock_block (currentDocId st1) blockIdLosingFocus) st1))
                    else st1)
         in if currentBlockId st2 = Some blockIdLosingFocus then resetTyping st2 else st2))"

definition handleBlockFocus :: "block_id option \<Rightarrow> client \<Rightarrow> client" where
  "handleBlockFocus target st =
     (case target of
        None \<Rightarrow> st
      | Some blockId \<Rightarrow>
          (case getBlockElement st blockId of
             None \<Rightarrow> st
           | Some block \<Rightarrow>
               (let isBlockEditable = (contentEditable block = CE_true) in
                if Some blockId = currentBlockId st then
                  (if isBlockEditable then st\<lparr>hist := initStack blockId (hist st)\<rparr> else st)
                else
                  (let st1 =
                         (case currentBlockId st of
                            None \<Rightarrow> st
                          | Some previousBlockId \<Rightarrow>
                              if previousBlockId = [] then st
                              else
                                (let s1 = sendCurrentBlockUpdate True st in
                                 if previousBlockId \<in> set (activeLocks s1)
                                 then removeLock previousBlockId
                                        (snd (sendMessage
                                                (unlock_block (currentDocId s1) previousBlockId) s1))
                                 else s1))
                   in if \<not> isBlockEditable then resetTyping st1
                      else
                        (let st2 = st1\<lparr>currentBlockId := Some blockId,
                                        charCountSinceLastUpdate := 0, timerId := None\<rparr>;
                             st3 = st2\<lparr>hist := initStack blockId (hist st2)\<rparr>;
                             st4 = (if blockId \<notin> set (activeLocks st3)
                                    then (let (ok, s) = sendMessage
                                                          (lock_block (currentDocId st3) blockId) st3
                                          in if ok then s\<lparr>activeLocks := activeLocks s @ [blockId]\<rparr>
                                             else s)
                                    else st3)
                         in st4\<lparr>hist := initStack blockId (hist st4)\<rparr>)))))"

subsection \<open>Remote updates and lock events\<close>

text \<open>
  The payload of \<open>document_updated\<close>; \<open>ru_document_id\<close> is \<open>String(payload.document_id)\<close>.
  After the history of the block is cleared and the content is replaced, the handler
  restyles the element (class, heading level, alt text, selection); those steps do not
  reach the undo/redo module and are left out.
\<close>

record remote_update =
  ru_document_id :: string
  ru_block_id :: block_id
  ru_content_html :: string
  ru_metadata :: "metadata option"

definition handleRemoteUpdate :: "remote_update \<Rightarrow> client \<Rightarrow> client" where
  "handleRemoteUpdate payload st =
     (if \<not> truthy (currentDocId st) \<or> Some (ru_document_id payload) \<noteq> currentDocId st then st
      else
        (let st1 = st\<lparr>hist := clearBlockHistory (ru_block_id payload) (hist st)\<rparr> in
         if Some (ru_block_id payload) = currentBlockId st1 then st1
         else
           (case getBlockElement st1 (ru_block_id payload) of
              None \<Rightarrow> st1
            | Some block \<Rightarrow>
                (let st2 = st1\<lparr>blocks :=
                                 AList.update (ru_block_id payload)
                                   (block\<lparr>innerHTML := ru_content_html payload\<rparr>) (blocks st1)\<rparr>;
                     newMetadata = (case ru_metadata payload of None \<Rightarrow> ''{}'' | Some m \<Rightarrow> m)
                 in updateBlockMetadataCache (ru_block_id payload) newMetadata st2))))"

datatype lock_event = block_locked | block_unlocked | lock_denied | other_event

text \<open>
  The payload of a lock event; a field that the message does not carry is \<open>None\<close>
  (\<open>undefined\<close>, which is equal to no user name).
\<close>

record lock_payload =
  lk_document_id :: string
  lk_block_id :: block_id
  locked_by :: "string option"
  unlocked_by :: "string option"

definition applyLockStyle :: "string option \<Rightarrow> element \<Rightarrow> element" where
  "applyLockStyle lockedBy e =
     e\<lparr>contentEditable := CE_false, lockedClass := True,
       title := ''Locked by '' @ (case lockedBy of None \<Rightarrow> ''undefined'' | Some u \<Rightarrow> u)\<rparr>"

definition removeLockStyle :: "element \<Rightarrow> element" where
  "removeLockStyle e =
     e\<lparr>contentEditable := (if \<not> neverEditable e then CE_true else CE_false),
       lockedClass := False, title := []\<rparr>"

definition isOwnLockEvent :: "lock_payload \<Rightarrow> client \<Rightarrow> bool" where
  "isOwnLockEvent payload st =
     ((locked_by payload \<noteq> None \<and> locked_by payload = currentUsername st) \<or>
      (unlocked_by payload \<noteq> None \<and> unlocked_by payload = currentUsername st))"

definition setBlock :: "block_id \<Rightarrow> element \<Rightarrow> client \<Rightarrow> client" where
  "setBlock blockId e st = st\<lparr>blocks := AList.update blockId e (blocks st)\<rparr>"

definition handleLockUpdate :: "lock_event \<Rightarrow> lock_payload \<Rightarrow> client \<Rightarrow> client" where
  "handleLockUpdate type payload st =
     (if \<not> truthy (currentDocId st) \<or> Some (lk_document_id payload) \<noteq> currentDocId st then st
      else
        (case getBlockElement st (lk_block_id payload) of
           None \<Rightarrow> st
         | Some block \<Rightarrow>
             (let blockId = lk_block_id payload in
              case type of
                block_locked \<Rightarrow>
                  if \<not> isOwnLockEvent payload st then
                    removeLock blockId
                      (setBlock blockId (applyLockStyle (locked_by payload) block)
                         (st\<lparr>hist := clearBlockHistory blockId (hist st)\<rparr>))
                  else
                    (let st1 = setBlock blockId (removeLockStyle block) st
                     in st1\<lparr>activeLocks := List.insert blockId (activeLocks st1)\<rparr>)
              | block_unlocked \<Rightarrow> removeLock blockId (setBlock blockId (removeLockStyle block) st)
              | lock_denied \<Rightarrow>
                  removeLock blockId
                    (setBlock blockId (applyLockStyle (locked_by payload) block)
                       (st\<lparr>hist := clearBlockHistory blockId (hist st)\<rparr>))
              | other_event \<Rightarrow> st)))"

subsection \<open>Undo and redo from the keyboard\<close>












section \<open>Example states\<close>

text \<open>
  A session with a document open on a live connection and two text blocks, and two
  histories of its first block: after two edits and one undo, and after two edits and two
  undos.
\<close>

definition plainBlock :: "string \<Rightarrow> element" where
  "plainBlock html = \<lparr>contentEditable = CE_true, innerHTML = html, lockedClass = False,
                       title = [], neverEditable = False, dataMeta = ''{block_type: text}''\<rparr>"

definition sessionClient :: client where
  "sessionClient = initialClient\<lparr>currentDocId := Some ''d1'', socket := Open,
                                 currentUsername := Some ''ann'',
                                 blocks := [(''b1'', plainBlock ''a''), (''b2'', plainBlock ''x'')]\<rparr>"

definition redoExample :: client where
  "redoExample = sessionClient\<lparr>hist := \<lparr>undoStacks = [(''b1'', [Str ''a''])],
                                          redoStacks = [(''b1'', [Str ''abc'', Str ''ab''])]\<rparr>\<rparr>"

definition undoExample :: client where
  "undoExample = sessionClient\<lparr>hist := \<lparr>undoStacks = [(''b1'', [Str ''a'', Str ''ab''])],
                                          redoStacks = [(''b1'', [Str ''abc''])]\<rparr>\<rparr>"

definition lockedBlock :: "string \<Rightarrow> string \<Rightarrow> element" where
  "lockedBlock html user = applyLockStyle (Some user) (plainBlock html)"

definition lockedExample :: client where
  "lockedExample = undoExample\<lparr>blocks := [(''b1'', lockedBlock ''a'' ''bob''), (''b2'', plainBlock ''x'')]\<rparr>"

definition typingExample :: "nat \<Rightarrow> client" where
  "typingExample n = sessionClient\<lparr>currentBlockId := Some ''b1'', charCountSinceLastUpdate := n,
                                    activeLocks := [''b1'']\<rparr>"

section \<open>Tables\<close>

subsection \<open>Reassembly of a table from its cells (reassembleTable)\<close>

text \<open>
  A table cell element with the results of \<open>parseInt\<close> on its \<open>rowIndex\<close> and \<open>colIndex\<close>
  data attributes (\<open>None\<close> for \<open>NaN\<close>), its parent id and its content.
\<close>

record cell =
  cellId :: block_id
  rowIndex :: "int option"
  colIndex :: "int option"
  parentBlockId :: string
  cellContent :: string

text \<open>An entry of a rebuilt row: a cell of the page, or an empty placeholder \<open>td\<close>.\<close>

datatype td = Existing cell | Placeholder int int string

record grouping =
  rows :: "int \<times> int \<Rightarrow> cell option"
  maxCol :: int
  maxRow :: int

definition bind :: "'a completion \<Rightarrow> ('a \<Rightarrow> 'b completion) \<Rightarrow> 'b completion" where
  "bind m f = (case m of Throw e \<Rightarrow> Throw e | Normal x \<Rightarrow> f x)"

text \<open>
  The callback of \<open>cellElements.forEach\<close> reads, after the assignment to \<open>rows[r][c]\<close>,
  \<^verbatim>\<open>rows[r][c] = cell; t\<close>
  and the line ends there: \<open>t\<close> is an expression statement. The module (an ES module, so
  strict code) declares and imports no \<open>t\<close>, and evaluating a name that has no binding
  throws a \<open>ReferenceError\<close>.
\<close>

definition evaluate_t :: "unit completion" where
  "evaluate_t = Throw ReferenceError"

definition groupCell :: "grouping \<Rightarrow> cell \<Rightarrow> grouping completion" where
  "groupCell g cell =
     (case (rowIndex cell, colIndex cell) of
        (Some r, Some c) \<Rightarrow>
          (let g1 = g\<lparr>rows := (rows g)((r, c) \<mapsto> cell)\<rparr> in
           bind evaluate_t
             (\<lambda>_. Normal (g1\<lparr>maxCol := max (maxCol g1) c, maxRow := max (maxRow g1) r\<rparr>)))
      | _ \<Rightarrow> Normal g)"

fun forEachCell :: "grouping \<Rightarrow> cell list \<Rightarrow> grouping completion" where
  "forEachCell g [] = Normal g"
| "forEachCell g (cell # cells) = bind (groupCell g cell) (\<lambda>g'. forEachCell g' cells)"

definition rebuildRows :: "string \<Rightarrow> grouping \<Rightarrow> td list list" where
  "rebuildRows tableId g =
     map (\<lambda>rIndex.
            map (\<lambda>cIndex. case rows g (rIndex, cIndex) of
                             Some cell \<Rightarrow> Existing cell
                           | None \<Rightarrow> Placeholder rIndex cIndex tableId)
                [0 .. maxCol g])
         [0 .. maxRow g]"

text \<open>
  The colgroup is rebuilt from \<open>options.columns\<close> of the options block (the empty list
  when the block has none or its content does not parse), a list of strings here: for
  each column the width is the entry, or \<open>auto\<close> when the entry is missing or empty, and it
  is applied when it matches \<^verbatim>\<open>/^[a-zA-Z0-9%. -]+$/\<close> and replaced by \<open>auto\<close>
  otherwise.
\<close>

datatype jsnum = NaN | NegInf | Fin rat | PosInf

text \<open>
  The value given to \<open>col.style.width\<close>: the template \<^verbatim>\<open>`${n}px`\<close> of a number, or a
  string as it is.
\<close>

datatype css_width = Px jsnum | Css string

definition safeChar :: "char \<Rightarrow> bool" where
  "safeChar ch = (ch \<in> set ''abcdefghijklmnopqrstuvwxyzABCDEFGHIJKLMNOPQRSTUVWXYZ0123456789%. -'')"

definition safePattern :: "string \<Rightarrow> bool" where
  "safePattern w = (w \<noteq> [] \<and> list_all safeChar w)"

definition colWidthAt :: "string list \<Rightarrow> nat \<Rightarrow> string" where
  "colWidthAt colWidths i =
     (if i < length colWidths \<and> colWidths ! i \<noteq> [] then colWidths ! i else ''auto'')"

definition rebuildColgroup :: "string list \<Rightarrow> nat \<Rightarrow> css_width list" where
  "rebuildColgroup colWidths numCols =
     map (\<lambda>i. let width = colWidthAt colWidths i;
                   safeWidth = (if safePattern width then width else ''auto'')
               in Css safeWidth)
         [0 ..< numCols]"

record table_dom =
  tbody :: "td list list"
  colgroup :: "css_width list"

text \<open>
  \<open>reassembleTable tableId tableExists cellElements colWidths\<close>: whether the page has an
  element with the id of the table, and the table cells of the page with that parent id,
  in document order. The result is \<open>None\<close> when the function returns early and the
  rebuilt table otherwise.
\<close>

definition reassembleTable ::
    "string \<Rightarrow> bool \<Rightarrow> cell list \<Rightarrow> string list \<Rightarrow> table_dom option completion" where
  "reassembleTable tableId tableExists cellElements colWidths =
     (if \<not> tableExists \<and> length cellElements = 0 then Normal None
      else
        bind (forEachCell \<lparr>rows = Map.empty, maxCol = - 1, maxRow = - 1\<rparr> cellElements)
          (\<lambda>g. let numCols = maxCol g + 1
                in Normal (Some \<lparr>tbody = rebuildRows tableId g,
                                  colgroup = rebuildColgroup colWidths (nat numCols)\<rparr>)))"

subsection \<open>Remote table options (handleRemoteOptionsUpdated)\<close>

definition MIN_COL_WIDTH :: rat where
  "MIN_COL_WIDTH = 30"

definition DEFAULT_COL_WIDTH :: rat where
  "DEFAULT_COL_WIDTH = 100"

text \<open>An entry of \<open>options.columns\<close>: a string, or a JSON value of another type.\<close>

datatype width_json = WString string | WOther

definition endsWith :: "string \<Rightarrow> string \<Rightarrow> bool" where
  "endsWith w suf = (length suf \<le> length w \<and> drop (length w - length suf) w = suf)"

definition isNaN :: "jsnum \<Rightarrow> bool" where
  "isNaN x = (x = NaN)"

definition geq :: "jsnum \<Rightarrow> rat \<Rightarrow> bool" where
  "geq x y = (case x of NaN \<Rightarrow> False | NegInf \<Rightarrow> False | Fin v \<Rightarrow> v \<ge> y | PosInf \<Rightarrow> True)"

text \<open>
  The body of \<open>colWidths.forEach\<close>. The builtin \<open>parseFloat\<close> is a parameter: the
  properties below hold whatever number it reads from a string.
\<close>

definition remoteColWidth :: "(string \<Rightarrow> jsnum) \<Rightarrow> width_json \<Rightarrow> css_width" where
  "remoteColWidth parseFloat width =
     (let safeWidth =
            (case width of
               WString w \<Rightarrow>
                 if endsWith w ''px'' then
                   (let pxVal = parseFloat w in
                    if \<not> isNaN pxVal \<and> geq pxVal MIN_COL_WIDTH then pxVal
                    else if \<not> isNaN pxVal then Fin MIN_COL_WIDTH
                    else Fin DEFAULT_COL_WIDTH)
                 else Fin DEFAULT_COL_WIDTH
             | WOther \<Rightarrow> Fin DEFAULT_COL_WIDTH)
      in Px safeWidth)"

text \<open>
  What \<open>JSON.parse(payload.options_json)\<close> gives: a \<open>SyntaxError\<close>, \<open>null\<close> (reading
  \<open>columns\<close> of it throws a \<open>TypeError\<close>), a value whose \<open>columns\<close> is an array, or any
  other value. The whole body is inside \<open>try\<close>, and \<open>catch\<close> only logs.
\<close>

datatype options_json = Unparsable | JsonNull | Columns "width_json list" | NoColumnList

definition parseOptions :: "options_json \<Rightarrow> width_json list option completion" where
  "parseOptions opts =
     (case opts of
        Unparsable \<Rightarrow> Throw SyntaxError
      | JsonNull \<Rightarrow> Throw TypeError
      | Columns ws \<Rightarrow> Normal (Some ws)
      | NoColumnList \<Rightarrow> Normal None)"

text \<open>
  \<open>handleRemoteOptionsUpdated parseFloat forCurrentDoc table opts\<close>: whether a document is
  open and the payload is for it, and the widths of the \<open>col\<close> elements of the table with
  the id of the payload (\<open>None\<close> when the page has no such table). The result is the
  widths given to the \<open>col\<close> elements; \<open>addResizeHandles\<close>, which then places the handles
  and sets the width of the table, is left out.
\<close>

definition handleRemoteOptionsUpdated ::
    "(string \<Rightarrow> jsnum) \<Rightarrow> bool \<Rightarrow> css_width list option \<Rightarrow> options_json
       \<Rightarrow> css_width list option completion" where
  "handleRemoteOptionsUpdated parseFloat forCurrentDoc table opts =
     (if \<not> forCurrentDoc then Normal table
      else
        (case table of
           None \<Rightarrow> Normal None
         | Some cols \<Rightarrow>
             (case parseOptions opts of
                Throw e \<Rightarrow> Normal (Some cols)
              | Normal None \<Rightarrow> Normal (Some [])
              | Normal (Some colWidths) \<Rightarrow>
                  Normal (Some (map (remoteColWidth parseFloat) colWidths)))))"

text \<open>
  An instance of the parameter for the examples: it reads the decimal digits at the start
  of the string, as \<open>parseFloat\<close> does on a string of digits followed by a unit.
\<close>

definition digitValue :: "char \<Rightarrow> nat" where
  "digitValue ch =
     (if ch = CHR ''1'' then 1 else if ch = CHR ''2'' then 2 else if ch = CHR ''3'' then 3
      else if ch = CHR ''4'' then 4 else if ch = CHR ''5'' then 5 else if ch = CHR ''6'' then 6
      else if ch = CHR ''7'' then 7 else if ch = CHR ''8'' then 8 else if ch = CHR ''9'' then 9
      else 0)"

definition parseDigits :: "string \<Rightarrow> jsnum" where
  "parseDigits w =
     (let ds = takeWhile (\<lambda>ch. ch \<in> set ''0123456789'') w
      in if ds = [] then NaN
         else Fin (of_nat (foldl (\<lambda>n ch. 10 * n + digitValue ch) 0 ds)))"

section \<open>Properties of the undo/redo module\<close>

subsection \<open>Lookups and the key invariant\<close>

lemma initStack_present: "map_of (undoStacks h) b = Some xs \<Longrightarrow> initStack b h = h"
  by (simp add: initStack_def)

lemma map_of_None_keys: "(map_of al k = None) = (k \<notin> fst ` set al)"
  by (simp add: map_of_eq_None_iff)

lemma key_mem: "map_of al k = Some v \<Longrightarrow> k \<in> fst ` set al"
  using map_of_None_keys[of al k] by simp

lemma key_present_update:
  "map_of al k = Some v \<Longrightarrow> fst ` set (AList.update k w al) = fst ` set al"
  using map_of_None_keys[of al k] by (auto simp: dom_update)

lemma keysAgree_redo_defined:
  assumes "keysAgree h" and "map_of (undoStacks h) b = Some xs"
  shows "\<exists>rs. map_of (redoStacks h) b = Some rs"
proof -
  from assms(2) have "b \<in> fst ` set (undoStacks h)" by (rule key_mem)
  with assms(1) have "b \<in> fst ` set (redoStacks h)" by (simp add: keysAgree_def)
  then have "map_of (redoStacks h) b \<noteq> None" by (simp add: map_of_None_keys)
  then show ?thesis by auto
qed

lemma keysAgree_clearStacks: "keysAgree clearStacks"
  by (simp add: keysAgree_def clearStacks_def)

lemma keysAgree_initStack: "keysAgree h \<Longrightarrow> keysAgree (initStack b h)"
  by (auto simp: keysAgree_def initStack_def dom_update split: option.splits)

lemma keysAgree_pushState:
  assumes "keysAgree h"
  shows "keysAgree (pushState b s h)"
proof -
  from assms have "keysAgree (initStack b h)" by (rule keysAgree_initStack)
  then show ?thesis
    unfolding pushState_def Let_def keysAgree_def
    by (auto simp: key_present_update dom_update dest: key_mem split: option.splits)
qed

lemma keysAgree_clearBlockHistory: "keysAgree h \<Longrightarrow> keysAgree (clearBlockHistory b h)"
  unfolding clearBlockHistory_def Let_def keysAgree_def
  by (auto simp: key_present_update split: option.splits)

lemma keysAgree_undo: "keysAgree h \<Longrightarrow> keysAgree (snd (undo b h))"
  unfolding undo_def Let_def keysAgree_def
  by (auto simp: key_present_update initStack_present split: option.splits)

lemma keysAgree_redo:
  assumes "keysAgree h"
  shows "keysAgree (snd (redo b h))"
proof -
  from assms have "keysAgree (initStack b h)" by (rule keysAgree_initStack)
  with assms show ?thesis
    unfolding redo_def Let_def keysAgree_def
    by (auto simp: key_present_update split: option.splits)
qed

subsection \<open>Pushing a state\<close>

text \<open>
  Claim C3. For a block \<open>b\<close> whose undo stack is not empty: \<open>pushState b s\<close> with \<open>s\<close>
  equal to the top of the undo stack changes nothing at all; with \<open>s\<close> different from
  the top it puts \<open>s\<close> on top of the undo stack (after which the oldest entry is dropped
  if the array has grown beyond \<open>MAX_HISTORY\<close>) and leaves \<open>b\<close> with no redo entry.
\<close>

theorem pushState_top_or_append:
  assumes "map_of (undoStacks h) b = Some xs" and "xs \<noteq> []"
  shows "(s = last xs \<longrightarrow> pushState b s h = h) \<and>
         (s \<noteq> last xs \<longrightarrow>
            map_of (undoStacks (pushState b s h)) b =
              Some (if length xs + 1 > MAX_HISTORY then tl (xs @ [s]) else xs @ [s]) \<and>
            stackLen (redoStacks (pushState b s h)) b = 0)"
  using assms
  by (auto simp: pushState_def initStack_present Let_def update_conv' stackLen_def
           split: option.splits)

theorem pushState_top_or_append_witness:
  "map_of (undoStacks \<lparr>undoStacks = [(''b1'', [Str ''a'', Str ''ab''])],
                        redoStacks = [(''b1'', [Str ''abc''])]\<rparr>) ''b1''
     = Some [Str ''a'', Str ''ab''] \<and>
   [Str ''a'', Str ''ab''] \<noteq> [] \<and>
   pushState ''b1'' (Str ''ab'') \<lparr>undoStacks = [(''b1'', [Str ''a'', Str ''ab''])],
                                   redoStacks = [(''b1'', [Str ''abc''])]\<rparr>
     = \<lparr>undoStacks = [(''b1'', [Str ''a'', Str ''ab''])], redoStacks = [(''b1'', [Str ''abc''])]\<rparr> \<and>
   map_of (undoStacks (pushState ''b1'' (Str ''abd'')
       \<lparr>undoStacks = [(''b1'', [Str ''a'', Str ''ab''])], redoStacks = [(''b1'', [Str ''abc''])]\<rparr>)) ''b1''
     = Some [Str ''a'', Str ''ab'', Str ''abd''] \<and>
   stackLen (redoStacks (pushState ''b1'' (Str ''abd'')
       \<lparr>undoStacks = [(''b1'', [Str ''a'', Str ''ab''])], redoStacks = [(''b1'', [Str ''abc''])]\<rparr>)) ''b1'' = 0"
  using pushState_top_or_append
          [of "\<lparr>undoStacks = [(''b1'', [Str ''a'', Str ''ab''])], redoStacks = [(''b1'', [Str ''abc''])]\<rparr>"
              "''b1''" "[Str ''a'', Str ''ab'']" "Str ''ab''"]
        pushState_top_or_append
          [of "\<lparr>undoStacks = [(''b1'', [Str ''a'', Str ''ab''])], redoStacks = [(''b1'', [Str ''abc''])]\<rparr>"
              "''b1''" "[Str ''a'', Str ''ab'']" "Str ''abd''"]
  by (simp add: MAX_HISTORY_def)

lemma pushState_other_block:
  "b' \<noteq> b \<Longrightarrow> map_of (undoStacks (pushState b' s h)) b = map_of (undoStacks h) b"
  unfolding pushState_def Let_def initStack_def
  by (auto simp: update_conv' split: option.splits)

lemma pushState_keeps_bound:
  assumes "stackLen (undoStacks h) b \<le> MAX_HISTORY"
  shows "stackLen (undoStacks (pushState b' s h)) b \<le> MAX_HISTORY"
proof (cases "b' = b")
  case False
  with assms show ?thesis
    using pushState_other_block[OF False] by (simp add: stackLen_def)
next
  case True
  with assms show ?thesis
    unfolding pushState_def Let_def initStack_def stackLen_def
    by (auto simp: update_conv' MAX_HISTORY_def split: option.splits)
qed

lemma pushAll_keeps_bound:
  "stackLen (undoStacks h) b \<le> MAX_HISTORY \<Longrightarrow>
   stackLen (undoStacks (pushAll calls h)) b \<le> MAX_HISTORY"
  unfolding pushAll_def
  by (induction calls arbitrary: h) (auto simp: pushState_keeps_bound)

lemma pushState_evicts_oldest:
  assumes "map_of (undoStacks h) b = Some xs" and "length xs = MAX_HISTORY" and "last xs \<noteq> s"
  shows "map_of (undoStacks (pushState b s h)) b = Some (tl xs @ [s])"
  using assms
  by (cases xs)
     (auto simp: pushState_def initStack_present Let_def update_conv' MAX_HISTORY_def
           split: option.splits)

text \<open>
  Claim C8. Whatever pushes are made, to this block or to others, a block's undo stack
  never has more than \<open>MAX_HISTORY\<close> (5000) entries: this holds from the empty history of
  a freshly loaded document and from any history that respects the bound. A push of a
  new state onto a stack that is full drops the first (oldest) entry and keeps the others
  in their order, below the new top.
\<close>

theorem pushState_history_bounded:
  "stackLen (undoStacks (pushAll calls clearStacks)) b \<le> MAX_HISTORY \<and>
   (stackLen (undoStacks h0) b \<le> MAX_HISTORY \<longrightarrow>
      stackLen (undoStacks (pushAll calls h0)) b \<le> MAX_HISTORY) \<and>
   (map_of (undoStacks h) b = Some xs \<and> length xs = MAX_HISTORY \<and> last xs \<noteq> s \<longrightarrow>
      map_of (undoStacks (pushState b s h)) b = Some (tl xs @ [s]))"
proof -
  have "stackLen (undoStacks clearStacks) b \<le> MAX_HISTORY"
    by (simp add: stackLen_def clearStacks_def)
  then have "stackLen (undoStacks (pushAll calls clearStacks)) b \<le> MAX_HISTORY"
    by (rule pushAll_keeps_bound)
  then show ?thesis
    using pushAll_keeps_bound[of h0 b calls] pushState_evicts_oldest[of h b xs s] by blast
qed

theorem pushState_history_bounded_witness:
  "stackLen (undoStacks \<lparr>undoStacks = [(''b1'', replicate 5000 (Str ''a''))],
                          redoStacks = [(''b1'', [])]\<rparr>) ''b1'' \<le> MAX_HISTORY \<and>
   stackLen (undoStacks (pushAll [(''b1'', Str ''z''), (''b2'', Str ''y''), (''b1'', Str ''x'')]
       \<lparr>undoStacks = [(''b1'', replicate 5000 (Str ''a''))], redoStacks = [(''b1'', [])]\<rparr>)) ''b1''
     \<le> MAX_HISTORY \<and>
   length (replicate 5000 (Str ''a'')) = MAX_HISTORY \<and>
   last (replicate 5000 (Str ''a'')) \<noteq> Str ''z'' \<and>
   map_of (undoStacks (pushState ''b1'' (Str ''z'')
       \<lparr>undoStacks = [(''b1'', replicate 5000 (Str ''a''))], redoStacks = [(''b1'', [])]\<rparr>)) ''b1''
     = Some (tl (replicate 5000 (Str ''a'')) @ [Str ''z''])"
  using pushState_history_bounded
          [of "[(''b1'', Str ''z''), (''b2'', Str ''y''), (''b1'', Str ''x'')]" "''b1''"
              "\<lparr>undoStacks = [(''b1'', replicate 5000 (Str ''a''))], redoStacks = [(''b1'', [])]\<rparr>"
              "\<lparr>undoStacks = [(''b1'', replicate 5000 (Str ''a''))], redoStacks = [(''b1'', [])]\<rparr>"
              "replicate 5000 (Str ''a'')" "Str ''z''"]
  by (simp add: MAX_HISTORY_def stackLen_def)

subsection \<open>Undo and redo\<close>

text \<open>
  Claim C9. In a history of the module (the two objects on the same keys), for a block
  \<open>b\<close> whose undo stack has at least two entries: \<open>undo b\<close> returns the entry below the
  top, and \<open>redo b\<close> right after it returns the state that was on top before the undo
  and leaves the whole history, so both stacks of \<open>b\<close>, exactly as it was before the undo.
\<close>

theorem redo_after_undo:
  assumes "keysAgree h" and "map_of (undoStacks h) b = Some xs" and "2 \<le> length xs"
  shows "fst (undo b h) = Normal (Some (b, last (butlast xs))) \<and>
         redo b (snd (undo b h)) = (Normal (Some (b, last xs)), h)"
proof -
  from assms(1,2) obtain rs where rs: "map_of (redoStacks h) b = Some rs"
    using keysAgree_redo_defined by blast
  from assms(3) have ne: "xs \<noteq> []" "butlast xs \<noteq> []" "\<not> length xs \<le> Suc 0"
    by (auto simp: butlast_conv_take)
  have u: "undo b h =
      (Normal (Some (b, last (butlast xs))),
       h\<lparr>undoStacks := AList.update b (butlast xs) (undoStacks h),
         redoStacks := AList.update b (rs @ [last xs]) (redoStacks h)\<rparr>)"
    using assms(2) rs ne by (simp add: undo_def initStack_present Let_def)
  have "redo b (snd (undo b h)) = (Normal (Some (b, last xs)), h)"
    unfolding u using assms(2) rs ne
    by (simp add: redo_def initStack_def Let_def update_conv' update_triv)
  with u show ?thesis by simp
qed

theorem redo_after_undo_witness:
  "keysAgree \<lparr>undoStacks = [(''b1'', [Str ''a'', Str ''ab'', Str ''abc''])],
              redoStacks = [(''b1'', [Str ''q''])]\<rparr> \<and>
   2 \<le> length [Str ''a'', Str ''ab'', Str ''abc''] \<and>
   fst (undo ''b1'' \<lparr>undoStacks = [(''b1'', [Str ''a'', Str ''ab'', Str ''abc''])],
                     redoStacks = [(''b1'', [Str ''q''])]\<rparr>) = Normal (Some (''b1'', Str ''ab'')) \<and>
   redo ''b1'' (snd (undo ''b1'' \<lparr>undoStacks = [(''b1'', [Str ''a'', Str ''ab'', Str ''abc''])],
                                  redoStacks = [(''b1'', [Str ''q''])]\<rparr>))
     = (Normal (Some (''b1'', Str ''abc'')),
        \<lparr>undoStacks = [(''b1'', [Str ''a'', Str ''ab'', Str ''abc''])],
          redoStacks = [(''b1'', [Str ''q''])]\<rparr>)"
  using redo_after_undo
          [of "\<lparr>undoStacks = [(''b1'', [Str ''a'', Str ''ab'', Str ''abc''])],
                redoStacks = [(''b1'', [Str ''q''])]\<rparr>"
              "''b1''" "[Str ''a'', Str ''ab'', Str ''abc'']"]
  by (simp add: keysAgree_def)

text \<open>
  Claim C10. \<open>undo b\<close> returns \<open>null\<close> exactly when the undo stack of \<open>b\<close> has at most one
  entry, \<open>redo b\<close> returns \<open>null\<close> exactly when the redo stack of \<open>b\<close> has no entry, and a
  call that returns \<open>null\<close> leaves the history as it was.
\<close>

theorem undo_redo_null:
  "(fst (undo b h) = Normal None \<longleftrightarrow> stackLen (undoStacks h) b \<le> 1) \<and>
   (fst (redo b h) = Normal None \<longleftrightarrow> stackLen (redoStacks h) b = 0) \<and>
   (fst (undo b h) = Normal None \<longrightarrow> snd (undo b h) = h) \<and>
   (fst (redo b h) = Normal None \<longrightarrow> snd (redo b h) = h)"
  by (auto simp: undo_def redo_def stackLen_def Let_def initStack_def update_conv'
           split: option.splits)

theorem undo_redo_null_witness:
  "fst (undo ''b1'' \<lparr>undoStacks = [(''b1'', [Str ''a''])], redoStacks = [(''b1'', [])]\<rparr>) = Normal None \<and>
   stackLen (undoStacks \<lparr>undoStacks = [(''b1'', [Str ''a''])], redoStacks = [(''b1'', [])]\<rparr>) ''b1'' \<le> 1 \<and>
   fst (redo ''b1'' \<lparr>undoStacks = [(''b1'', [Str ''a''])], redoStacks = [(''b1'', [])]\<rparr>) = Normal None \<and>
   snd (undo ''b1'' \<lparr>undoStacks = [(''b1'', [Str ''a''])], redoStacks = [(''b1'', [])]\<rparr>)
     = \<lparr>undoStacks = [(''b1'', [Str ''a''])], redoStacks = [(''b1'', [])]\<rparr> \<and>
   snd (redo ''b1'' \<lparr>undoStacks = [(''b1'', [Str ''a''])], redoStacks = [(''b1'', [])]\<rparr>)
     = \<lparr>undoStacks = [(''b1'', [Str ''a''])], redoStacks = [(''b1'', [])]\<rparr>"
  using undo_redo_null
          [of "''b1''" "\<lparr>undoStacks = [(''b1'', [Str ''a''])], redoStacks = [(''b1'', [])]\<rparr>"]
  by (simp add: stackLen_def)

section \<open>Reconnection\<close>

lemma sendMessage_reconnect [simp]:
  "reconnectAttempts (snd (sendMessage m st)) = reconnectAttempts st"
  "reconnectTimers (snd (sendMessage m st)) = reconnectTimers st"
  by (simp_all add: sendMessage_def showNotification_def)

lemma connect_reconnect:
  "reconnectAttempts (connectWebSocket u st) = reconnectAttempts st"
  "reconnectTimers (connectWebSocket u st) = reconnectTimers st"
  by (simp_all add: connectWebSocket_def showNotification_def)

lemma onclose_attempts:
  "reconnectAttempts (onclose st) =
     (if reconnectAttempts st < MAX_RECONNECT_ATTEMPTS then Suc (reconnectAttempts st) else reconnectAttempts st)"
  by (simp add: onclose_def Let_def showNotification_def)

lemma onclose_timers:
  "reconnectTimers (onclose st) =
     (if reconnectAttempts st < MAX_RECONNECT_ATTEMPTS
      then reconnectTimers st @ [RECONNECT_DELAY * Suc (reconnectAttempts st)] else reconnectTimers st)"
  by (simp add: onclose_def Let_def showNotification_def)

lemma wsRun_Cons: "wsRun (e # evs) st = wsRun evs (wsStep st e)"
  by (simp add: wsRun_def)

lemma closes_Cons: "closes (e # evs) = (if e = Close then Suc (closes evs) else closes evs)"
  by (simp add: closes_def)

lemma onopen_attempts: "reconnectAttempts (onopen st) = 0"
  by (simp add: onopen_def Let_def showNotification_def)

lemma wsRun_snoc: "wsRun (evs @ [e]) st = wsStep (wsRun evs st) e"
  by (simp add: wsRun_def)

lemma wsRun_timers:
  "reconnectAttempts st \<le> MAX_RECONNECT_ATTEMPTS \<Longrightarrow> Opened \<notin> set evs \<Longrightarrow>
   reconnectAttempts (wsRun evs st) = min (reconnectAttempts st + closes evs) MAX_RECONNECT_ATTEMPTS \<and>
   reconnectTimers (wsRun evs st) =
     reconnectTimers st @ map (\<lambda>n. RECONNECT_DELAY * n)
        [Suc (reconnectAttempts st) ..< Suc (min (reconnectAttempts st + closes evs) MAX_RECONNECT_ATTEMPTS)]"
proof (induction evs arbitrary: st)
  case Nil
  then show ?case by (simp add: wsRun_def closes_def)
next
  case (Cons e evs)
  from Cons.prems have no: "Opened \<notin> set evs" and e: "e \<noteq> Opened" by auto
  show ?case
  proof (cases e)
    case Opened
    with e show ?thesis by simp
  next
    case Close
    let ?a = "reconnectAttempts st" and ?M = "MAX_RECONNECT_ATTEMPTS" and ?c = "closes evs"
    have run: "wsRun (e # evs) st = wsRun evs (onclose st)"
      by (simp add: wsRun_Cons Close wsStep_def)
    have cl: "closes (e # evs) = Suc ?c" by (simp add: closes_Cons Close)
    show ?thesis
    proof (cases "?a < ?M")
      case True
      then have a': "reconnectAttempts (onclose st) = Suc ?a"
        and t': "reconnectTimers (onclose st) = reconnectTimers st @ [RECONNECT_DELAY * Suc ?a]"
        by (simp_all add: onclose_attempts onclose_timers)
      from True a' have le: "reconnectAttempts (onclose st) \<le> ?M" by simp
      have m: "min (Suc ?a + ?c) ?M = min (?a + Suc ?c) ?M" by simp
      from True have "Suc ?a < Suc (min (?a + Suc ?c) ?M)" by simp
      then have up: "[Suc ?a ..< Suc (min (?a + Suc ?c) ?M)]
                     = Suc ?a # [Suc (Suc ?a) ..< Suc (min (?a + Suc ?c) ?M)]"
        by (rule upt_conv_Cons)
      show ?thesis
        unfolding run cl up using Cons.IH[OF le no] unfolding a' t' m by simp
    next
      case False
      with Cons.prems have eq: "?a = ?M" by simp
      then have a': "reconnectAttempts (onclose st) = ?M"
        and t': "reconnectTimers (onclose st) = reconnectTimers st"
        by (simp_all add: onclose_attempts onclose_timers)
      from a' have le: "reconnectAttempts (onclose st) \<le> ?M" by simp
      show ?thesis
        unfolding run cl using Cons.IH[OF le no] unfolding a' t' eq by simp
    qed
  next
    case ReconnectTimerFires
    have le: "reconnectAttempts (connectWebSocket (currentUsername st) st) \<le> MAX_RECONNECT_ATTEMPTS"
      using Cons.prems by (simp add: connect_reconnect)
    show ?thesis
      using Cons.IH[OF le no]
      by (simp add: wsRun_Cons closes_Cons ReconnectTimerFires wsStep_def connect_reconnect)
  qed
qed

lemma delays_increasing: "sorted_wrt (<) (map (\<lambda>n. RECONNECT_DELAY * n) [a ..< b])"
  by (simp add: sorted_wrt_map RECONNECT_DELAY_def)

lemma onclose_ceiling:
  "reconnectAttempts st = MAX_RECONNECT_ATTEMPTS \<Longrightarrow>
     reconnectTimers (onclose st) = reconnectTimers st \<and> closedBanner (onclose st) \<and>
     socket (onclose st) = NoSocket \<and>
     notifications (onclose st) = notifications st @ [(''Connection lost. Could not reconnect.'', ''error'')]"
  by (simp add: onclose_def Let_def showNotification_def)

lemma wsRun_append: "wsRun (evs @ later) st = wsRun later (wsRun evs st)"
  by (simp add: wsRun_def)

text \<open>
  Claim C5, as the code has it. The bound is one of a run of failures. \<open>onopen\<close> sets the
  attempt counter to 0, whatever came before. From a state whose counter is 0 (the page
  has loaded, or the socket has opened), whatever sequence of close events and
  reconnection attempts follows without a successful opening in between: the
  reconnections scheduled are exactly those with the delays \<open>RECONNECT_DELAY * n\<close> for
  \<open>n = 1, ..., min k 5\<close>, where \<open>k\<close> is the number of close events; so there are at most
  \<open>MAX_RECONNECT_ATTEMPTS\<close> (5) of them and their delays increase strictly. Once five close
  events have happened nothing that follows in the run schedules another one, and a
  further close shows the banner and the error notification that the client could not
  reconnect.
\<close>

theorem reconnect_bounded:
  assumes "reconnectAttempts st = 0" and "Opened \<notin> set evs" and "Opened \<notin> set later"
  shows "reconnectAttempts (wsRun (before @ [Opened]) st0) = 0 \<and>
         reconnectTimers (wsRun evs st) =
           reconnectTimers st @ map (\<lambda>n. RECONNECT_DELAY * n)
              [1 ..< Suc (min (closes evs) MAX_RECONNECT_ATTEMPTS)] \<and>
         length (reconnectTimers (wsRun evs st)) \<le> length (reconnectTimers st) + MAX_RECONNECT_ATTEMPTS \<and>
         sorted_wrt (<) (map (\<lambda>n. RECONNECT_DELAY * n) [1 ..< Suc (min (closes evs) MAX_RECONNECT_ATTEMPTS)]) \<and>
         (MAX_RECONNECT_ATTEMPTS \<le> closes evs \<longrightarrow>
            reconnectTimers (wsRun (evs @ later) st) = reconnectTimers (wsRun evs st) \<and>
            closedBanner (onclose (wsRun evs st)) \<and>
            notifications (onclose (wsRun evs st)) =
              notifications (wsRun evs st) @ [(''Connection lost. Could not reconnect.'', ''error'')])"
proof -
  have o: "reconnectAttempts (wsRun (before @ [Opened]) st0) = 0"
    by (simp add: wsRun_snoc wsStep_def onopen_attempts)
  have le: "reconnectAttempts st \<le> MAX_RECONNECT_ATTEMPTS" using assms(1) by simp
  note run = wsRun_timers[OF le assms(2), unfolded assms(1)]
  have t: "reconnectTimers (wsRun evs st) =
           reconnectTimers st @ map (\<lambda>n. RECONNECT_DELAY * n)
              [1 ..< Suc (min (closes evs) MAX_RECONNECT_ATTEMPTS)]"
    using run by simp
  have l: "length (reconnectTimers (wsRun evs st)) \<le> length (reconnectTimers st) + MAX_RECONNECT_ATTEMPTS"
    unfolding t by simp
  have c: "reconnectTimers (wsRun (evs @ later) st) = reconnectTimers (wsRun evs st) \<and>
            closedBanner (onclose (wsRun evs st)) \<and>
            notifications (onclose (wsRun evs st)) =
              notifications (wsRun evs st) @ [(''Connection lost. Could not reconnect.'', ''error'')]"
    if ceil: "MAX_RECONNECT_ATTEMPTS \<le> closes evs"
  proof -
    from run ceil have a: "reconnectAttempts (wsRun evs st) = MAX_RECONNECT_ATTEMPTS" by simp
    then have le': "reconnectAttempts (wsRun evs st) \<le> MAX_RECONNECT_ATTEMPTS" by simp
    have "reconnectTimers (wsRun later (wsRun evs st)) = reconnectTimers (wsRun evs st)"
      using wsRun_timers[OF le' assms(3)] a by simp
    then show ?thesis using onclose_ceiling[OF a] by (simp add: wsRun_append)
  qed
  show ?thesis using o t l c delays_increasing by blast
qed

theorem reconnect_bounded_witness:
  "reconnectAttempts initialClient = 0 \<and>
   Opened \<notin> set [Close, ReconnectTimerFires, Close, ReconnectTimerFires, Close,
                   ReconnectTimerFires, Close, ReconnectTimerFires, Close,
                   ReconnectTimerFires, Close] \<and>
   Opened \<notin> set [Close, Close] \<and>
   reconnectAttempts (wsRun ([Close, ReconnectTimerFires, Close] @ [Opened]) initialClient) = 0 \<and>
   reconnectTimers (wsRun [Close, ReconnectTimerFires, Close, ReconnectTimerFires, Close,
                           ReconnectTimerFires, Close, ReconnectTimerFires, Close,
                           ReconnectTimerFires, Close] initialClient)
     = [3000, 6000, 9000, 12000, 15000] \<and>
   MAX_RECONNECT_ATTEMPTS \<le> closes [Close, ReconnectTimerFires, Close, ReconnectTimerFires, Close,
                           ReconnectTimerFires, Close, ReconnectTimerFires, Close,
                           ReconnectTimerFires, Close] \<and>
   reconnectTimers (wsRun ([Close, ReconnectTimerFires, Close, ReconnectTimerFires, Close,
                           ReconnectTimerFires, Close, ReconnectTimerFires, Close,
                           ReconnectTimerFires, Close] @ [Close, Close]) initialClient)
     = [3000, 6000, 9000, 12000, 15000]"
  using reconnect_bounded
          [where st = initialClient
             and evs = "[Close, ReconnectTimerFires, Close, ReconnectTimerFires, Close,
                         ReconnectTimerFires, Close, ReconnectTimerFires, Close,
                         ReconnectTimerFires, Close]"
             and later = "[Close, Close]"
             and before = "[Close, ReconnectTimerFires, Close]"
             and ?st0.0 = initialClient]
  by (simp add: initialClient_def closes_def MAX_RECONNECT_ATTEMPTS_def RECONNECT_DELAY_def)

text \<open>
  The claim as the specification words it, a bound over every sequence of close events,
  fails when the socket opens in between: two failures, a successful reconnection and
  four more failures schedule six reconnections, and the third delay is shorter than the
  second.
\<close>

theorem reconnect_counter_reset_by_open:
  "closes [Close, ReconnectTimerFires, Close, ReconnectTimerFires, Opened,
           Close, ReconnectTimerFires, Close, ReconnectTimerFires, Close, ReconnectTimerFires,
           Close] = 6 \<and>
   reconnectTimers
     (wsRun [Close, ReconnectTimerFires, Close, ReconnectTimerFires, Opened,
             Close, ReconnectTimerFires, Close, ReconnectTimerFires, Close, ReconnectTimerFires,
             Close] initialClient)
     = [3000, 6000, 3000, 6000, 9000, 12000] \<and>
   \<not> length [3000, 6000, 3000, 6000, 9000, 12000 :: nat] \<le> MAX_RECONNECT_ATTEMPTS \<and>
   \<not> sorted_wrt (<) [3000, 6000, 3000, 6000, 9000, 12000 :: nat]"
  by (simp add: closes_def wsRun_def wsStep_def onclose_def onopen_def connectWebSocket_def
        sendMessage_def showNotification_def initialClient_def Let_def
        MAX_RECONNECT_ATTEMPTS_def RECONNECT_DELAY_def)

section \<open>Remote events and local history\<close>

lemmas example_defs =
  redoExample_def undoExample_def sessionClient_def initialClient_def plainBlock_def
  lockedExample_def lockedBlock_def typingExample_def

lemma clearBlockHistory_empty:
  "stackLen (undoStacks (clearBlockHistory b h)) b = 0"
  "stackLen (redoStacks (clearBlockHistory b h)) b = 0"
  by (auto simp: clearBlockHistory_def stackLen_def Let_def update_conv' split: option.splits)

lemma undo_null_iff: "(fst (undo b h) = Normal None) = (stackLen (undoStacks h) b \<le> 1)"
  by (auto simp: undo_def stackLen_def Let_def initStack_def update_conv' split: option.splits)

lemma undo_null_same: "stackLen (undoStacks h) b \<le> 1 \<Longrightarrow> undo b h = (Normal None, h)"
  by (auto simp: undo_def stackLen_def Let_def split: option.splits)

lemma hist_updateCache [simp]: "hist (updateBlockMetadataCache b m st) = hist st"
  by (simp add: updateBlockMetadataCache_def)

lemma remote_hist:
  "truthy (currentDocId st) \<Longrightarrow> Some (ru_document_id p) = currentDocId st \<Longrightarrow>
   hist (handleRemoteUpdate p st) = clearBlockHistory (ru_block_id p) (hist st)"
  by (auto simp: handleRemoteUpdate_def Let_def split: option.splits)

lemma lock_hist:
  "truthy (currentDocId st) \<Longrightarrow> Some (lk_document_id q) = currentDocId st \<Longrightarrow>
   getBlockElement st (lk_block_id q) \<noteq> None \<Longrightarrow> \<not> isOwnLockEvent q st \<Longrightarrow>
   hist (handleLockUpdate block_locked q st) = clearBlockHistory (lk_block_id q) (hist st)"
  by (auto simp: handleLockUpdate_def Let_def removeLock_def setBlock_def split: option.splits)

text \<open>
  Claim C1. With a document open: a \<open>document_updated\<close> message of that document for a
  block \<open>b\<close>, and a \<open>block_locked\<close> message of that document for a block \<open>b\<close> of the page
  that names another user, each leave \<open>b\<close> with no undo entry and no redo entry, so that
  \<open>undo b\<close> right afterwards returns \<open>null\<close> and changes nothing. The history before the
  event is arbitrary, so this holds after any number of local edits. (Both handlers
  ignore the messages of other documents, and the lock handler those for a block that the
  page does not have.)
\<close>

theorem remote_event_clears_history:
  assumes "truthy (currentDocId st)"
  shows "(Some (ru_document_id p) = currentDocId st \<longrightarrow>
            stackLen (undoStacks (hist (handleRemoteUpdate p st))) (ru_block_id p) = 0 \<and>
            stackLen (redoStacks (hist (handleRemoteUpdate p st))) (ru_block_id p) = 0 \<and>
            undo (ru_block_id p) (hist (handleRemoteUpdate p st))
              = (Normal None, hist (handleRemoteUpdate p st))) \<and>
         (Some (lk_document_id q) = currentDocId st \<and> getBlockElement st (lk_block_id q) \<noteq> None \<and>
          locked_by q \<noteq> currentUsername st \<and> unlocked_by q = None \<longrightarrow>
            stackLen (undoStacks (hist (handleLockUpdate block_locked q st))) (lk_block_id q) = 0 \<and>
            stackLen (redoStacks (hist (handleLockUpdate block_locked q st))) (lk_block_id q) = 0 \<and>
            undo (lk_block_id q) (hist (handleLockUpdate block_locked q st))
              = (Normal None, hist (handleLockUpdate block_locked q st)))"
proof -
  have cleared: "stackLen (undoStacks (clearBlockHistory b h)) b = 0 \<and>
        stackLen (redoStacks (clearBlockHistory b h)) b = 0 \<and>
        undo b (clearBlockHistory b h) = (Normal None, clearBlockHistory b h)" for b h
    using clearBlockHistory_empty[of b h] undo_null_same[of "clearBlockHistory b h" b] by simp
  have own: "\<not> isOwnLockEvent q st" if "locked_by q \<noteq> currentUsername st" "unlocked_by q = None"
    using that by (simp add: isOwnLockEvent_def)
  show ?thesis
    using remote_hist[OF assms, of p] lock_hist[OF assms, of q] own cleared by metis
qed

theorem remote_event_clears_history_witness:
  "truthy (currentDocId undoExample) \<and>
   Some (ru_document_id \<lparr>ru_document_id = ''d1'', ru_block_id = ''b1'', ru_content_html = ''z'',
                          ru_metadata = None\<rparr>) = currentDocId undoExample \<and>
   stackLen (undoStacks (hist undoExample)) ''b1'' = 2 \<and>
   undo ''b1'' (hist (handleRemoteUpdate
        \<lparr>ru_document_id = ''d1'', ru_block_id = ''b1'', ru_content_html = ''z'', ru_metadata = None\<rparr>
        undoExample))
     = (Normal None, hist (handleRemoteUpdate
        \<lparr>ru_document_id = ''d1'', ru_block_id = ''b1'', ru_content_html = ''z'', ru_metadata = None\<rparr>
        undoExample)) \<and>
   getBlockElement undoExample ''b1'' \<noteq> None \<and>
   Some ''bob'' \<noteq> currentUsername undoExample \<and>
   undo ''b1'' (hist (handleLockUpdate block_locked
        \<lparr>lk_document_id = ''d1'', lk_block_id = ''b1'', locked_by = Some ''bob'', unlocked_by = None\<rparr>
        undoExample))
     = (Normal None, hist (handleLockUpdate block_locked
        \<lparr>lk_document_id = ''d1'', lk_block_id = ''b1'', locked_by = Some ''bob'', unlocked_by = None\<rparr>
        undoExample))"
  using remote_event_clears_history
          [of undoExample
              "\<lparr>ru_document_id = ''d1'', ru_block_id = ''b1'', ru_content_html = ''z'', ru_metadata = None\<rparr>"
              "\<lparr>lk_document_id = ''d1'', lk_block_id = ''b1'', locked_by = Some ''bob'', unlocked_by = None\<rparr>"]
  by (simp add: example_defs truthy_def getBlockElement_def stackLen_def)

section \<open>Undo and redo of a block that is not focused\<close>









lemma getBlockMetadata_keeps:
  "sent (snd (getBlockMetadata b st)) = sent st"
  "socket (snd (getBlockMetadata b st)) = socket st"
  "currentDocId (snd (getBlockMetadata b st)) = currentDocId st"
  "hist (snd (getBlockMetadata b st)) = hist st"
  "blocks (snd (getBlockMetadata b st)) = blocks st"
  by (simp_all add: getBlockMetadata_def updateBlockMetadataCache_def split: option.splits)






section \<open>Throttling of outgoing updates\<close>

lemma getBlockMetadata_typing:
  "charCountSinceLastUpdate (snd (getBlockMetadata b st)) = charCountSinceLastUpdate st"
  "timerId (snd (getBlockMetadata b st)) = timerId st"
  "activeLocks (snd (getBlockMetadata b st)) = activeLocks st"
  "currentBlockId (snd (getBlockMetadata b st)) = currentBlockId st"
  by (simp_all add: getBlockMetadata_def updateBlockMetadataCache_def split: option.splits)

lemma getBlockMetadata_Some:
  "getBlockElement st b = Some el \<Longrightarrow> \<exists>m. fst (getBlockMetadata b st) = Some m"
  by (simp add: getBlockMetadata_def split: option.splits)

lemma sendCurrentBlockUpdate_sends:
  assumes "getBlockElement st b = Some el" and "contentEditable el = CE_true"
    and "currentBlockId st = Some b" and "b \<noteq> []"
    and "truthy (currentDocId st)" and "socket st = Open"
    and "force \<or> charCountSinceLastUpdate st \<noteq> 0"
  shows "sent (sendCurrentBlockUpdate force st) =
           sent st @ [update_document (currentDocId st) b (Str (innerHTML el)) (fst (getBlockMetadata b st))]"
    and "charCountSinceLastUpdate (sendCurrentBlockUpdate force st) = 0"
    and "timerId (sendCurrentBlockUpdate force st) = None"
    and "activeLocks (sendCurrentBlockUpdate force st) = activeLocks st"
    and "currentBlockId (sendCurrentBlockUpdate force st) = currentBlockId st"
    and "currentDocId (sendCurrentBlockUpdate force st) = currentDocId st"
    and "socket (sendCurrentBlockUpdate force st) = socket st"
proof -
  obtain m where m: "fst (getBlockMetadata b st) = Some m"
    using getBlockMetadata_Some[OF assms(1)] by blast
  obtain st1 where st1: "getBlockMetadata b st = (Some m, st1)"
    using m by (cases "getBlockMetadata b st") simp
  have f: "sent st1 = sent st" "socket st1 = socket st" "currentDocId st1 = currentDocId st"
     "activeLocks st1 = activeLocks st" "currentBlockId st1 = currentBlockId st"
    using getBlockMetadata_keeps[of b st] getBlockMetadata_typing[of b st] st1 by simp_all
  have u: "sendCurrentBlockUpdate force st =
      (snd (sendSpecificBlockUpdate b (Str (innerHTML el)) (Some m) st1))
        \<lparr>charCountSinceLastUpdate := 0, timerId := None\<rparr>"
    using assms st1 by (auto simp add: sendCurrentBlockUpdate_def truthy_def Let_def)
  show "sent (sendCurrentBlockUpdate force st) =
           sent st @ [update_document (currentDocId st) b (Str (innerHTML el)) (fst (getBlockMetadata b st))]"
    unfolding u using assms f m by (simp add: sendSpecificBlockUpdate_def sendMessage_def)
  show "charCountSinceLastUpdate (sendCurrentBlockUpdate force st) = 0"
    "timerId (sendCurrentBlockUpdate force st) = None" unfolding u by simp_all
  show "activeLocks (sendCurrentBlockUpdate force st) = activeLocks st"
    "currentBlockId (sendCurrentBlockUpdate force st) = currentBlockId st"
    "currentDocId (sendCurrentBlockUpdate force st) = currentDocId st"
    "socket (sendCurrentBlockUpdate force st) = socket st"
    unfolding u using assms f by (simp_all add: sendSpecificBlockUpdate_def sendMessage_def)
qed

lemma input_below:
  assumes "getBlockElement st b = Some el" and "contentEditable el = CE_true"
    and "currentBlockId st = Some b" and "charCountSinceLastUpdate st + 1 < CHAR_UPDATE_THRESHOLD"
  shows "handleBlockInput (Some b) st =
     st\<lparr>hist := pushState b (Str (innerHTML el)) (hist st),
        charCountSinceLastUpdate := charCountSinceLastUpdate st + 1,
        timerId := Some (b, TIME_UPDATE_THRESHOLD_MS)\<rparr>"
  using assms by (simp add: handleBlockInput_def Let_def)

lemma input_only_at_threshold:
  "sent (handleBlockInput target st) \<noteq> sent st \<Longrightarrow>
   CHAR_UPDATE_THRESHOLD \<le> charCountSinceLastUpdate st + 1"
  by (auto simp: handleBlockInput_def Let_def split: option.splits if_splits)

lemma input_at_threshold:
  assumes "getBlockElement st b = Some el" and "contentEditable el = CE_true"
    and "currentBlockId st = Some b" and "b \<noteq> []"
    and "truthy (currentDocId st)" and "socket st = Open"
    and "CHAR_UPDATE_THRESHOLD \<le> charCountSinceLastUpdate st + 1"
  shows "sent (handleBlockInput (Some b) st) =
           sent st @ [update_document (currentDocId st) b (Str (innerHTML el)) (fst (getBlockMetadata b st))]
       \<and> charCountSinceLastUpdate (handleBlockInput (Some b) st) = 0
       \<and> timerId (handleBlockInput (Some b) st) = None"
proof -
  let ?st3 = "st\<lparr>hist := pushState b (Str (innerHTML el)) (hist st),
        charCountSinceLastUpdate := charCountSinceLastUpdate st + 1,
        timerId := None\<rparr>"
  have h: "handleBlockInput (Some b) st = sendCurrentBlockUpdate False ?st3"
    using assms by (simp add: handleBlockInput_def Let_def)
  have g: "getBlockElement ?st3 b = Some el" using assms(1) by (simp add: getBlockElement_def)
  have md: "fst (getBlockMetadata b ?st3) = fst (getBlockMetadata b st)"
    by (simp add: getBlockMetadata_def getBlockElement_def updateBlockMetadataCache_def
             split: option.splits)
  show ?thesis
    unfolding h
    using sendCurrentBlockUpdate_sends(1-3)[OF g assms(2), of False] assms md
    by simp
qed

lemma blur_sends:
  assumes "getBlockElement st b = Some el" and "contentEditable el = CE_true"
    and "currentBlockId st = Some b" and "b \<noteq> []"
    and "truthy (currentDocId st)" and "socket st = Open"
    and "newFocus \<noteq> Some b"
  shows "sent (blurTimeout b newFocus st) =
           sent st @ [update_document (currentDocId st) b (Str (innerHTML el)) (fst (getBlockMetadata b st))]
                   @ (if b \<in> set (activeLocks st) then [unlock_block (currentDocId st) b] else [])"
proof -
  note s = sendCurrentBlockUpdate_sends[OF assms(1-6), of True, simplified]
  show ?thesis
    using assms(7) assms(6) assms(3) s
    by (simp add: blurTimeout_def Let_def removeLock_def resetTyping_def sendMessage_def)
qed

lemma focus_shift_sends:
  assumes "getBlockElement st b = Some el" and "contentEditable el = CE_true"
    and "currentBlockId st = Some b" and "b \<noteq> []"
    and "truthy (currentDocId st)" and "socket st = Open"
    and "getBlockElement st b2 = Some el2" and "b2 \<noteq> b"
  shows "update_document (currentDocId st) b (Str (innerHTML el)) (fst (getBlockMetadata b st))
           \<in> set (sent (handleBlockFocus (Some b2) st))"
proof -
  note s = sendCurrentBlockUpdate_sends[OF assms(1-6), of True, simplified]
  show ?thesis
    using assms(3,4,6,7,8) s
    by (auto simp add: handleBlockFocus_def Let_def removeLock_def resetTyping_def sendMessage_def
             split: prod.splits)
qed

text \<open>
  Claim C4. Let \<open>b\<close> be the tracked (focused) block, editable and on the page. An input
  event on \<open>b\<close> that leaves the edit count below \<open>CHAR_UPDATE_THRESHOLD\<close> (20) sends nothing:
  it counts the edit and leaves one idle timer of \<open>TIME_UPDATE_THRESHOLD_MS\<close> (8000 ms)
  pending for \<open>b\<close>. Whatever its target, an input event that sends something has brought
  the count to the threshold. With a document open on an open socket, the input event
  that brings the count to the threshold sends \<open>update_document\<close> with the content of \<open>b\<close>
  at once and resets the count and the timer; and when \<open>b\<close> loses the focus (the blur
  timeout finds the focus elsewhere, or the focus enters another block of the page) the
  update is sent whatever the count is, zero included.
\<close>

theorem update_throttling:
  assumes "getBlockElement st b = Some el" and "contentEditable el = CE_true"
    and "currentBlockId st = Some b"
  shows "(charCountSinceLastUpdate st + 1 < CHAR_UPDATE_THRESHOLD \<longrightarrow>
            sent (handleBlockInput (Some b) st) = sent st \<and>
            timerId (handleBlockInput (Some b) st) = Some (b, TIME_UPDATE_THRESHOLD_MS) \<and>
            charCountSinceLastUpdate (handleBlockInput (Some b) st) = charCountSinceLastUpdate st + 1) \<and>
         (\<forall>target. sent (handleBlockInput target st) \<noteq> sent st \<longrightarrow>
            CHAR_UPDATE_THRESHOLD \<le> charCountSinceLastUpdate st + 1) \<and>
         (b \<noteq> [] \<and> truthy (currentDocId st) \<and> socket st = Open \<longrightarrow>
            (CHAR_UPDATE_THRESHOLD \<le> charCountSinceLastUpdate st + 1 \<longrightarrow>
               sent (handleBlockInput (Some b) st) =
                 sent st @ [update_document (currentDocId st) b (Str (innerHTML el))
                              (fst (getBlockMetadata b st))] \<and>
               charCountSinceLastUpdate (handleBlockInput (Some b) st) = 0 \<and>
               timerId (handleBlockInput (Some b) st) = None) \<and>
            (newFocus \<noteq> Some b \<longrightarrow>
               sent (blurTimeout b newFocus st) =
                 sent st @ [update_document (currentDocId st) b (Str (innerHTML el))
                              (fst (getBlockMetadata b st))]
                         @ (if b \<in> set (activeLocks st) then [unlock_block (currentDocId st) b] else [])) \<and>
            (getBlockElement st b2 \<noteq> None \<and> b2 \<noteq> b \<longrightarrow>
               update_document (currentDocId st) b (Str (innerHTML el)) (fst (getBlockMetadata b st))
                 \<in> set (sent (handleBlockFocus (Some b2) st))))"
proof -
  have below: "charCountSinceLastUpdate st + 1 < CHAR_UPDATE_THRESHOLD \<Longrightarrow>
            sent (handleBlockInput (Some b) st) = sent st \<and>
            timerId (handleBlockInput (Some b) st) = Some (b, TIME_UPDATE_THRESHOLD_MS) \<and>
            charCountSinceLastUpdate (handleBlockInput (Some b) st) = charCountSinceLastUpdate st + 1"
    using input_below[OF assms] by simp
  have foc: "update_document (currentDocId st) b (Str (innerHTML el)) (fst (getBlockMetadata b st))
                 \<in> set (sent (handleBlockFocus (Some b2) st))"
    if "b \<noteq> []" "truthy (currentDocId st)" "socket st = Open" "getBlockElement st b2 \<noteq> None" "b2 \<noteq> b"
  proof -
    from that(4) obtain el2 where "getBlockElement st b2 = Some el2" by auto
    then show ?thesis using focus_shift_sends[OF assms that(1-3) _ that(5)] by blast
  qed
  show ?thesis
    using below input_only_at_threshold[of _ st] input_at_threshold[OF assms]
          blur_sends[OF assms, of newFocus] foc
    by blast
qed

theorem update_throttling_witness:
  "getBlockElement (typingExample 3) ''b1'' = Some (plainBlock ''a'') \<and>
   contentEditable (plainBlock ''a'') = CE_true \<and>
   currentBlockId (typingExample 3) = Some ''b1'' \<and>
   charCountSinceLastUpdate (typingExample 3) + 1 < CHAR_UPDATE_THRESHOLD \<and>
   sent (handleBlockInput (Some ''b1'') (typingExample 3)) = [] \<and>
   timerId (handleBlockInput (Some ''b1'') (typingExample 3)) = Some (''b1'', 8000) \<and>
   CHAR_UPDATE_THRESHOLD \<le> charCountSinceLastUpdate (typingExample 19) + 1 \<and>
   truthy (currentDocId (typingExample 19)) \<and> socket (typingExample 19) = Open \<and>
   sent (handleBlockInput (Some ''b1'') (typingExample 19)) =
     [update_document (Some ''d1'') ''b1'' (Str ''a'') (Some ''{block_type: text}'')] \<and>
   sent (blurTimeout ''b1'' None (typingExample 0)) =
     [update_document (Some ''d1'') ''b1'' (Str ''a'') (Some ''{block_type: text}''),
      unlock_block (Some ''d1'') ''b1''] \<and>
   getBlockElement (typingExample 0) ''b2'' \<noteq> None \<and>
   update_document (Some ''d1'') ''b1'' (Str ''a'') (Some ''{block_type: text}'')
     \<in> set (sent (handleBlockFocus (Some ''b2'') (typingExample 0)))"
proof -
  have g: "getBlockElement (typingExample n) ''b1'' = Some (plainBlock ''a'')" for n
    by (simp add: example_defs getBlockElement_def)
  have e: "contentEditable (plainBlock ''a'') = CE_true" by (simp add: plainBlock_def)
  have c: "currentBlockId (typingExample n) = Some ''b1''" for n by (simp add: example_defs)
  have k: "charCountSinceLastUpdate (typingExample n) = n" "sent (typingExample n) = []"
     "currentDocId (typingExample n) = Some ''d1''" "socket (typingExample n) = Open"
     "activeLocks (typingExample n) = [''b1'']" "innerHTML (plainBlock ''a'') = ''a''"
     "getBlockElement (typingExample n) ''b2'' \<noteq> None" for n
    by (simp_all add: example_defs getBlockElement_def)
  have m: "fst (getBlockMetadata ''b1'' (typingExample n)) = Some ''{block_type: text}''" for n
    by (simp add: example_defs getBlockMetadata_def getBlockElement_def)
  have t: "truthy (Some ''d1'')" by (simp add: truthy_def)
  show ?thesis
    using update_throttling[OF g e c, of 3 None "''b2''"]
          update_throttling[OF g e c, of 19 None "''b2''"]
          update_throttling[OF g e c, of 0 None "''b2''"]
          g e c k m t
    by (simp add: CHAR_UPDATE_THRESHOLD_def TIME_UPDATE_THRESHOLD_MS_def)
qed

section \<open>Tables\<close>

lemma forEachCell_throws:
  assumes "\<exists>cell \<in> set cells. rowIndex cell \<noteq> None \<and> colIndex cell \<noteq> None"
  shows "forEachCell g cells = Throw ReferenceError"
  using assms
proof (induction cells arbitrary: g)
  case Nil
  then show ?case by simp
next
  case (Cons c cs)
  show ?case
  proof (cases "rowIndex c \<noteq> None \<and> colIndex c \<noteq> None")
    case True
    then show ?thesis by (auto simp: groupCell_def bind_def evaluate_t_def)
  next
    case False
    then have "groupCell g c = Normal g"
      by (auto simp: groupCell_def split: option.splits)
    moreover from False Cons.prems
    have "\<exists>cell \<in> set cs. rowIndex cell \<noteq> None \<and> colIndex cell \<noteq> None" by auto
    ultimately show ?thesis using Cons.IH by (simp add: bind_def)
  qed
qed

lemma reassembleTable_throws:
  assumes "\<exists>cell \<in> set cells. rowIndex cell \<noteq> None \<and> colIndex cell \<noteq> None"
  shows "reassembleTable tableId tableExists cells colWidths = Throw ReferenceError"
proof -
  from assms have "cells \<noteq> []" by auto
  then show ?thesis
    using forEachCell_throws[OF assms] by (simp add: reassembleTable_def bind_def)
qed

text \<open>
  Claim C6 says that the reassembly always completes and yields the grid with its gaps
  filled. The code sets out to do that (it creates the placeholder cells and warns about
  each), and stops before: for the table \<open>t1\<close> with its single cell at row 0, column 0,
  \<open>reassembleTable\<close> throws a \<open>ReferenceError\<close> in the first call of the \<open>forEach\<close>
  callback, at the stray \<open>t\<close>, and builds no row. The same happens for every set of cells
  that has one cell with a row and a column index (\<open>reassembleTable_throws\<close>).
\<close>

theorem reassembleTable_single_cell:
  "reassembleTable ''t1'' True
     [\<lparr>cellId = ''c1'', rowIndex = Some 0, colIndex = Some 0, parentBlockId = ''t1'',
       cellContent = ''x''\<rparr>] []
   = Throw ReferenceError"
  by (simp add: reassembleTable_def groupCell_def bind_def evaluate_t_def)

text \<open>
  Claim C7, as the code has it. A remote table-options update never fails, whatever the
  options are, and gives each column the width computed from its entry: an entry that is
  a string ending in \<open>px\<close> with a number below \<open>MIN_COL_WIDTH\<close> (30) gets the minimum, one
  with a number from the minimum on keeps it, and every other entry (no \<open>px\<close> at the end,
  no number to read, not a string) gets \<open>DEFAULT_COL_WIDTH\<close>, 100 px. The colgroup
  rebuild of the reassembly has no minimum: a width is applied as it is when it is made of
  the characters \<^verbatim>\<open>a-zA-Z0-9%. -\<close>, and is \<open>auto\<close> when it is missing, empty or has
  another character.
\<close>

theorem column_widths_applied:
  "(\<exists>r. handleRemoteOptionsUpdated parseFloat forCurrentDoc table opts = Normal r) \<and>
   handleRemoteOptionsUpdated parseFloat True (Some cols) (Columns ws)
     = Normal (Some (map (remoteColWidth parseFloat) ws)) \<and>
   (endsWith w ''px'' \<and> parseFloat w = Fin v \<and> v < MIN_COL_WIDTH \<longrightarrow>
      remoteColWidth parseFloat (WString w) = Px (Fin MIN_COL_WIDTH)) \<and>
   (endsWith w ''px'' \<and> parseFloat w = Fin v \<and> MIN_COL_WIDTH \<le> v \<longrightarrow>
      remoteColWidth parseFloat (WString w) = Px (Fin v)) \<and>
   (\<not> endsWith w ''px'' \<or> parseFloat w = NaN \<longrightarrow>
      remoteColWidth parseFloat (WString w) = Px (Fin DEFAULT_COL_WIDTH)) \<and>
   remoteColWidth parseFloat WOther = Px (Fin DEFAULT_COL_WIDTH) \<and>
   (i < numCols \<longrightarrow>
      rebuildColgroup colWidths numCols ! i =
        Css (if i < length colWidths \<and> colWidths ! i \<noteq> [] \<and> safePattern (colWidths ! i)
             then colWidths ! i else ''auto''))"
  by (auto simp: handleRemoteOptionsUpdated_def parseOptions_def remoteColWidth_def Let_def
        isNaN_def geq_def rebuildColgroup_def colWidthAt_def safePattern_def safeChar_def
        split: option.splits options_json.splits)

theorem column_widths_applied_witness:
  "endsWith ''12px'' ''px'' \<and> parseDigits ''12px'' = Fin 12 \<and> 12 < MIN_COL_WIDTH \<and>
   remoteColWidth parseDigits (WString ''12px'') = Px (Fin MIN_COL_WIDTH) \<and>
   endsWith ''120px'' ''px'' \<and> parseDigits ''120px'' = Fin 120 \<and> MIN_COL_WIDTH \<le> 120 \<and>
   remoteColWidth parseDigits (WString ''120px'') = Px (Fin 120) \<and>
   \<not> endsWith ''wide'' ''px'' \<and>
   remoteColWidth parseDigits (WString ''wide'') = Px (Fin DEFAULT_COL_WIDTH) \<and>
   (1::nat) < 2 \<and>
   rebuildColgroup [''5px'', ''a;b''] 2 ! 0 = Css ''5px'' \<and>
   rebuildColgroup [''5px'', ''a;b''] 2 ! 1 = Css ''auto''"
proof -
  have e: "endsWith ''12px'' ''px''" "endsWith ''120px'' ''px''" "\<not> endsWith ''wide'' ''px''"
    by (simp_all add: endsWith_def)
  have d: "parseDigits ''12px'' = Fin 12" "parseDigits ''120px'' = Fin 120"
    by (simp_all add: parseDigits_def digitValue_def)
  have m: "12 < MIN_COL_WIDTH" "MIN_COL_WIDTH \<le> 120" by (simp_all add: MIN_COL_WIDTH_def)
  have s: "safePattern ''5px''" "\<not> safePattern ''a;b''"
    by (simp_all add: safePattern_def safeChar_def)
  show ?thesis
    using column_widths_applied[where parseFloat = parseDigits and w = "''12px''" and v = 12
                                  and i = 0 and numCols = 2 and colWidths = "[''5px'', ''a;b'']"]
          column_widths_applied[where parseFloat = parseDigits and w = "''120px''" and v = 120
                                  and i = 1 and numCols = 2 and colWidths = "[''5px'', ''a;b'']"]
          column_widths_applied[where parseFloat = parseDigits and w = "''wide''"
                                  and i = 1 and numCols = 2 and colWidths = "[''5px'', ''a;b'']"]
          e d m s
    by simp
qed

text \<open>
  The claim as the specification words it fails on a remote update: the malformed width
  \<open>wide\<close> becomes 100 px, not \<open>auto\<close>.
\<close>

theorem malformed_width_gets_default:
  "handleRemoteOptionsUpdated parseDigits True (Some []) (Columns [WString ''wide''])
     = Normal (Some [Px (Fin 100)]) \<and>
   Px (Fin 100) \<noteq> Css ''auto''"
  by (simp add: handleRemoteOptionsUpdated_def parseOptions_def remoteColWidth_def endsWith_def
        DEFAULT_COL_WIDTH_def)

end
